(* ===== verification/Prelude.thy ===== *)
theory Prelude
  imports Main "HOL-Library.Monad_Syntax"
begin

text \<open>
  Shared vocabulary of the development. Request and response objects cross the wire
  as JSON: \<open>JSON.stringify\<close> turns a TypeScript object into a JSON object, dropping
  properties whose value is \<open>undefined\<close>, and \<open>response.json()\<close> turns the body back
  into a value whose properties are read with \<open>obj.key\<close>, where a key given twice
  takes its last value. An async function is a promise: a state transformer on the
  world that either rejects with an error or resolves with a value.
\<close>

named_theorems wire_simps "equations that read properties of serialized objects"

section \<open>JSON values\<close>

datatype json =
    JNull
  | JBool bool
  | JNumber int
  | JString string
  | JArray "json list"
  | JObject "(string \<times> json) list"

type_synonym props = "(string \<times> json) list"

text \<open>Reading a property of a parsed object: the last binding of the key wins.\<close>

definition props_get :: "props \<Rightarrow> string \<Rightarrow> json option" where
  "props_get kvs k = map_of (rev kvs) k"

fun jfield :: "string \<Rightarrow> json \<Rightarrow> json option" where
  "jfield k (JObject kvs) = props_get kvs k"
| "jfield k _ = None"

text \<open>An optional property is serialized only when it is defined.\<close>

fun opt_prop :: "string \<Rightarrow> ('a \<Rightarrow> json) \<Rightarrow> 'a option \<Rightarrow> props" where
  "opt_prop k f None = []"
| "opt_prop k f (Some v) = [(k, f v)]"

fun json_string :: "json \<Rightarrow> string option" where
  "json_string (JString s) = Some s"
| "json_string _ = None"

fun json_bool :: "json \<Rightarrow> bool option" where
  "json_bool (JBool b) = Some b"
| "json_bool _ = None"

text \<open>
  Typed reads of a parsed object, as a TypeScript interface promises them: a required
  property must be present with the right type; an optional one may be absent
  (\<open>Some None\<close>), but when present it must have the right type.
\<close>

definition req_field :: "(json \<Rightarrow> 'a option) \<Rightarrow> string \<Rightarrow> json \<Rightarrow> 'a option" where
  "req_field conv k j = Option.bind (jfield k j) conv"

definition read_opt :: "(json \<Rightarrow> 'a option) \<Rightarrow> json option \<Rightarrow> 'a option option" where
  "read_opt conv v = (case v of None \<Rightarrow> Some None | Some w \<Rightarrow> map_option Some (conv w))"

definition opt_field :: "(json \<Rightarrow> 'a option) \<Rightarrow> string \<Rightarrow> json \<Rightarrow> 'a option option" where
  "opt_field conv k j = read_opt conv (jfield k j)"

definition keys :: "props \<Rightarrow> string set" where
  "keys kvs = fst ` set kvs"

section \<open>Promises over a world state\<close>

type_synonym ('e, 's, 'a) promise = "'s \<Rightarrow> ('e + 'a) \<times> 's"

section \<open>Lemmas on property reads\<close>

lemma props_get_Nil [simp, wire_simps]: "props_get [] k = None"
  by (simp add: props_get_def)

lemma props_get_append:
  "props_get (xs @ ys) k = (case props_get ys k of None \<Rightarrow> props_get xs k | Some v \<Rightarrow> Some v)"
  by (simp add: props_get_def map_add_def split: option.splits)

lemma props_get_Cons:
  "props_get ((k', v) # xs) k = (case props_get xs k of None \<Rightarrow> (if k = k' then Some v else None) | Some w \<Rightarrow> Some w)"
  by (simp add: props_get_def map_add_def split: option.splits)

lemma props_get_opt_prop [simp, wire_simps]:
  "props_get (opt_prop k' f v) k = (if k = k' then map_option f v else None)"
  by (cases v) (simp_all add: props_get_def)

lemma props_get_single [simp, wire_simps]: "props_get [(k', v)] k = (if k = k' then Some v else None)"
  by (simp add: props_get_def)

lemma props_get_None_iff: "props_get kvs k = None \<longleftrightarrow> k \<notin> keys kvs"
  by (simp add: props_get_def keys_def map_of_eq_None_iff)

lemma props_get_append_disjoint [wire_simps]:
  "k \<notin> keys ys \<Longrightarrow> props_get (xs @ ys) k = props_get xs k"
  by (simp add: props_get_append flip: props_get_None_iff)

lemma props_get_append_disjoint2 [wire_simps]:
  "k \<notin> keys xs \<Longrightarrow> props_get (xs @ ys) k = props_get ys k"
  by (simp add: props_get_append split: option.splits)
     (metis option.distinct(1) option.exhaust props_get_None_iff)

lemma props_get_Cons_same [wire_simps]:
  "k \<notin> keys xs \<Longrightarrow> props_get ((k, v) # xs) k = Some v"
  by (simp add: props_get_Cons flip: props_get_None_iff)

lemma props_get_Cons_other [wire_simps]:
  "k \<noteq> k' \<Longrightarrow> props_get ((k', v) # xs) k = props_get xs k"
  by (simp add: props_get_Cons split: option.splits)

lemma keys_append [simp]: "keys (xs @ ys) = keys xs \<union> keys ys"
  by (auto simp: keys_def)

lemma keys_Cons [simp]: "keys ((k, v) # xs) = insert k (keys xs)"
  by (simp add: keys_def)

lemma keys_Nil [simp]: "keys [] = {}"
  by (simp add: keys_def)

lemma keys_opt_prop_subset [simp]: "k \<in> K \<Longrightarrow> keys (opt_prop k f v) \<subseteq> K"
  by (cases v) (simp_all add: keys_def)

lemma keys_opt_prop_disjoint [simp]: "k \<notin> K \<Longrightarrow> keys (opt_prop k f v) \<inter> K = {}"
  by (cases v) (simp_all add: keys_def)

lemma not_in_keys_opt_prop [simp]: "k \<noteq> k' \<Longrightarrow> k \<notin> keys (opt_prop k' f v)"
  by (cases v) (simp_all add: keys_def)

lemma req_field_JObject [simp]: "req_field conv k (JObject kvs) = Option.bind (props_get kvs k) conv"
  by (simp add: req_field_def)

lemma opt_field_JObject [simp]:
  "opt_field conv k (JObject kvs) = read_opt conv (props_get kvs k)"
  by (simp add: opt_field_def)

lemma read_opt_None [simp]: "read_opt conv None = Some None"
  and read_opt_Some [simp]: "read_opt conv (Some w) = map_option Some (conv w)"
  by (simp_all add: read_opt_def)

text \<open>Reading back an optional property that was serialized with a converter that inverts.\<close>

lemma read_opt_map_option:
  assumes "\<And>x. conv (f x) = Some x"
  shows "read_opt conv (map_option f v) = Some v"
  using assms by (cases v) simp_all

lemma read_opt_JString [simp]: "read_opt json_string (map_option JString v) = Some v"
  and read_opt_JBool [simp]: "read_opt json_bool (map_option JBool u) = Some u"
  by (simp_all add: read_opt_map_option)

lemma json_string_inv [simp]: "json_string (JString s) = Some s"
  and json_bool_inv [simp]: "json_bool (JBool b) = Some b"
  by simp_all

lemma json_string_Some: "json_string j = Some s \<longleftrightarrow> j = JString s"
  by (cases j) auto

lemma json_bool_Some: "json_bool j = Some b \<longleftrightarrow> j = JBool b"
  by (cases j) auto

end
