(* ===== verification/Api.thy ===== *)
theory Api
  imports Prelude
begin

text \<open>
  The request-performing collaborator that every wrapper of
  \<open>api/authentication/email_and_password.ts\<close> delegates to: \<open>performApiRequest\<close> and
  \<open>performSignInRequest\<close> of \<open>api/index.ts\<close>. That file is not part of the sources,
  so this theory models it from its documented contract: it takes the context object,
  an HTTP method and an endpoint identifier and the request object, performs one
  network exchange, resolves with the parsed body of a successful (2xx) response, and
  otherwise rejects with a transport error or with the error the service reported.
  The network and the remote service are a \<open>fetch\<close> function on an opaque world
  \<open>'s\<close>; the context object is an opaque \<open>'auth\<close> handed through unchanged.
  \<open>logging\<close> instruments any fetch with the list of requests it has carried, which
  is how the theories above state that an operation issues exactly one request.
\<close>

type_synonym IdToken = string

datatype HttpMethod = POST | GET

datatype Endpoint = SIGN_UP | SIGN_IN_WITH_PASSWORD | SEND_OOB_CODE

datatype AuthError =
    NETWORK_REQUEST_FAILED
  | INTERNAL_ERROR
  | ServerError string

text \<open>
  The outcome of one exchange: the connection failed, or a response arrived with a
  status code and a body that parses as JSON (\<open>Some\<close>) or does not (\<open>None\<close>).
\<close>

datatype FetchResult = NetworkFailure | HttpResponse nat "json option"

type_synonym ('auth, 's) fetch =
  "'auth \<Rightarrow> HttpMethod \<Rightarrow> Endpoint \<Rightarrow> json \<Rightarrow> 's \<Rightarrow> FetchResult \<times> 's"

definition http_ok :: "nat \<Rightarrow> bool" where
  "http_ok status \<longleftrightarrow> 200 \<le> status \<and> status < 300"

text \<open>The service reports failures as \<open>{"error": {"message": m}}\<close>.\<close>

definition server_error :: "json option \<Rightarrow> AuthError" where
  "server_error body =
     (case Option.bind (Option.bind body (jfield ''error'')) (jfield ''message'') of
        Some (JString m) \<Rightarrow> ServerError m
      | _ \<Rightarrow> INTERNAL_ERROR)"

fun response_result :: "FetchResult \<Rightarrow> AuthError + json" where
  "response_result NetworkFailure = Inl NETWORK_REQUEST_FAILED"
| "response_result (HttpResponse status body) =
     (if http_ok status
      then (case body of Some j \<Rightarrow> Inr j | None \<Rightarrow> Inl INTERNAL_ERROR)
      else Inl (server_error body))"

definition performApiRequest ::
  "('auth, 's) fetch \<Rightarrow> 'auth \<Rightarrow> HttpMethod \<Rightarrow> Endpoint \<Rightarrow> json \<Rightarrow> (AuthError, 's, json) promise" where
  "performApiRequest fetch auth method path request =
     (\<lambda>s. case fetch auth method path request s of (r, s') \<Rightarrow> (response_result r, s'))"

definition performSignInRequest ::
  "('auth, 's) fetch \<Rightarrow> 'auth \<Rightarrow> HttpMethod \<Rightarrow> Endpoint \<Rightarrow> json \<Rightarrow> (AuthError, 's, json) promise" where
  "performSignInRequest fetch auth method path request = performApiRequest fetch auth method path request"

section \<open>Requests on the wire\<close>

record ApiRequest =
  req_method :: HttpMethod
  req_endpoint :: Endpoint
  req_body :: json

definition logging :: "('auth, 's) fetch \<Rightarrow> ('auth, ApiRequest list \<times> 's) fetch" where
  "logging f auth method path request =
     (\<lambda>(log, s). case f auth method path request s of
        (r, s') \<Rightarrow> (r, (log @ [\<lparr>req_method = method, req_endpoint = path, req_body = request\<rparr>], s')))"

section \<open>Lemmas\<close>

lemma logging_apply:
  "logging f auth m e b (log, s) =
     (fst (f auth m e b s), (log @ [\<lparr>req_method = m, req_endpoint = e, req_body = b\<rparr>], snd (f auth m e b s)))"
  by (simp add: logging_def split: prod.splits)

lemma response_result_ok [simp]:
  "http_ok status \<Longrightarrow> response_result (HttpResponse status (Some j)) = Inr j"
  by simp

lemma response_result_not_ok [simp]:
  "\<not> http_ok status \<Longrightarrow> response_result (HttpResponse status body) = Inl (server_error body)"
  by simp

lemma server_error_message [simp]:
  "server_error (Some (JObject [(''error'', JObject [(''message'', JString m)])])) = ServerError m"
  by (simp add: server_error_def)

lemma performApiRequest_apply:
  "performApiRequest f auth m e b s = (response_result (fst (f auth m e b s)), snd (f auth m e b s))"
  by (simp add: performApiRequest_def split: prod.splits)

lemma performSignInRequest_apply:
  "performSignInRequest f auth m e b s = (response_result (fst (f auth m e b s)), snd (f auth m e b s))"
  by (simp add: performSignInRequest_def performApiRequest_apply)

text \<open>
  The interface fact the wrappers are proved against: through the logging fetch, one
  call of the collaborator appends exactly one request to the log and otherwise
  behaves as the plain fetch.
\<close>

lemma performApiRequest_logging:
  "performApiRequest (logging f) auth m e b (log, s) =
     (fst (performApiRequest f auth m e b s),
      (log @ [\<lparr>req_method = m, req_endpoint = e, req_body = b\<rparr>], snd (performApiRequest f auth m e b s)))"
  by (simp add: performApiRequest_apply logging_def split: prod.splits)

lemmas api_apply = performApiRequest_apply performSignInRequest_apply

end
