(* ===== verification/SignIn.thy ===== *)
theory SignIn
  imports Api
begin

text \<open>
  Password sign-in, lines 27--46 of
  \<open>packages-exp/auth-exp/src/api/authentication/email_and_password.ts\<close>:
  \<^item> the request interface \<open>SignInWithPasswordRequest\<close>;
  \<^item> the response interface \<open>SignInWithPasswordResponse\<close>, an extension of
    \<open>IdTokenResponse\<close>. That record lives in \<open>model/id_token.ts\<close> and is modelled from
    the spec's ``standard token fields'';
  \<^item> the wrapper \<open>signInWithPassword\<close>, one POST to the sign-in endpoint through
    \<open>performSignInRequest\<close>.
  The request object goes on the wire as \<open>SignInWithPasswordRequest_to_json\<close>.
  \<open>SignInWithPasswordRequest_of_json\<close> is not code: it is how a receiver reads a body
  back under the interface's typing. The wrapper's result is the parsed body itself,
  because the response type of line 42 is a cast.
\<close>

record SignInWithPasswordRequest =
  returnSecureToken :: "bool option"
  email :: string
  password :: string

definition SignInWithPasswordRequest_to_json :: "SignInWithPasswordRequest \<Rightarrow> json" where
  "SignInWithPasswordRequest_to_json request =
     JObject (opt_prop ''returnSecureToken'' JBool (returnSecureToken request)
              @ [(''email'', JString (SignInWithPasswordRequest.email request)),
                 (''password'', JString (password request))])"

definition SignInWithPasswordRequest_of_json :: "json \<Rightarrow> SignInWithPasswordRequest option" where
  "SignInWithPasswordRequest_of_json j =
     do {
       rst \<leftarrow> opt_field json_bool ''returnSecureToken'' j;
       e \<leftarrow> req_field json_string ''email'' j;
       p \<leftarrow> req_field json_string ''password'' j;
       Some \<lparr>returnSecureToken = rst, email = e, password = p\<rparr>
     }"

record IdTokenResponse =
  idToken :: IdToken
  refreshToken :: string
  expiresIn :: string
  localId :: string

record SignInWithPasswordResponse = IdTokenResponse +
  email :: string
  displayName :: string

definition signInWithPassword ::
  "('auth, 's) fetch \<Rightarrow> 'auth \<Rightarrow> SignInWithPasswordRequest \<Rightarrow> (AuthError, 's, json) promise" where
  "signInWithPassword fetch auth request =
     performSignInRequest fetch auth POST SIGN_IN_WITH_PASSWORD
       (SignInWithPasswordRequest_to_json request)"

section \<open>Serialization\<close>

lemma SignInWithPasswordRequest_props_get [wire_simps]:
  "jfield k (SignInWithPasswordRequest_to_json r) =
     (if k = ''password'' then Some (JString (password r))
      else if k = ''email'' then Some (JString (SignInWithPasswordRequest.email r))
      else if k = ''returnSecureToken'' then map_option JBool (returnSecureToken r)
      else None)"
  by (simp add: SignInWithPasswordRequest_to_json_def wire_simps)

lemma SignInWithPasswordRequest_of_json_Some:
  "SignInWithPasswordRequest_of_json j = Some r \<longleftrightarrow>
     opt_field json_bool ''returnSecureToken'' j = Some (returnSecureToken r) \<and>
     jfield ''email'' j = Some (JString (SignInWithPasswordRequest.email r)) \<and>
     jfield ''password'' j = Some (JString (password r))"
  by (cases r)
     (auto simp: SignInWithPasswordRequest_of_json_def req_field_def json_string_Some
        bind_eq_Some_conv)

lemma opt_field_json_bool_Some:
  "opt_field json_bool k j = Some v \<longleftrightarrow> jfield k j = map_option JBool v"
  by (cases v; cases "jfield k j")
     (auto simp: opt_field_def json_bool_Some)

section \<open>The wrapper\<close>

text \<open>
  C1. \<open>signInWithPassword\<close> issues exactly one request, a POST to the sign-in endpoint
  whose body carries exactly the caller's request; the world changes as that one
  exchange changes it, and the promise settles as the collaborator classifies that
  exchange. Stated through the logging fetch, for every fetch and every request.
\<close>

lemma signInWithPassword_single_post:
  "\<exists>b. SignInWithPasswordRequest_of_json b = Some request \<and>
       signInWithPassword (logging f) auth request (log, s) =
         (response_result (fst (f auth POST SIGN_IN_WITH_PASSWORD b s)),
          (log @ [\<lparr>req_method = POST, req_endpoint = SIGN_IN_WITH_PASSWORD, req_body = b\<rparr>],
           snd (f auth POST SIGN_IN_WITH_PASSWORD b s)))"
proof (intro exI conjI)
  show "SignInWithPasswordRequest_of_json (SignInWithPasswordRequest_to_json request) = Some request"
    by (simp add: SignInWithPasswordRequest_of_json_Some opt_field_json_bool_Some
          SignInWithPasswordRequest_props_get)
  show "signInWithPassword (logging f) auth request (log, s) =
         (response_result (fst (f auth POST SIGN_IN_WITH_PASSWORD (SignInWithPasswordRequest_to_json request) s)),
          (log @ [\<lparr>req_method = POST, req_endpoint = SIGN_IN_WITH_PASSWORD,
                   req_body = SignInWithPasswordRequest_to_json request\<rparr>],
           snd (f auth POST SIGN_IN_WITH_PASSWORD (SignInWithPasswordRequest_to_json request) s)))"
    by (simp add: signInWithPassword_def performSignInRequest_apply logging_apply)
qed

end
