(* ===== verification/OobCode.thy ===== *)
theory OobCode
  imports Api
begin

text \<open>
  Out-of-band code requests, lines 48--125 of
  \<open>packages-exp/auth-exp/src/api/authentication/email_and_password.ts\<close>. The enum
  \<open>GetOobCodeRequestType\<close> is a datatype whose wire form is its string value; the base
  interface \<open>GetOobCodeRequest\<close> is a record of optional properties, and its three
  variants \<open>VerifyEmailRequest\<close>, \<open>PasswordResetRequest\<close> and \<open>EmailSignInRequest\<close>
  extend it as the interfaces do. A variant's literal \<open>requestType\<close> type and its
  narrowing of \<open>email\<close> to a required string are type-level facts of TypeScript;
  here they are the predicates \<open>*_wf\<close>, the typing judgement a caller's value
  satisfies. \<open>sendOobCode\<close> receives the whole object (any extension of the base
  record) and \<open>JSON.stringify\<close> writes all of its properties: the base ones by
  \<open>GetOobCodeRequest_props\<close>, the variant's own ones by the serializer the entry point
  passes. Field names shared by several records are written qualified
  (\<open>VerifyEmailRequest.requestType\<close>, \<open>GetOobCodeRequest.email\<close>).

  The spec describes the variants as a tagged union (its section 9); \<open>OobCodeRequest\<close>
  is that abstract request, and \<open>oob_request_of_json\<close> reads a body as one, failing
  on a body whose tag does not match its required fields. The refinement lemmas show
  each entry point sends a body that reads back as the abstract request it stands for.
\<close>

datatype GetOobCodeRequestType =
    PASSWORD_RESET
  | EMAIL_SIGNIN
  | VERIFY_EMAIL
  | VERIFY_AND_CHANGE_EMAIL

fun GetOobCodeRequestType_to_string :: "GetOobCodeRequestType \<Rightarrow> string" where
  "GetOobCodeRequestType_to_string PASSWORD_RESET = ''PASSWORD_RESET''"
| "GetOobCodeRequestType_to_string EMAIL_SIGNIN = ''EMAIL_SIGNIN''"
| "GetOobCodeRequestType_to_string VERIFY_EMAIL = ''VERIFY_EMAIL''"
| "GetOobCodeRequestType_to_string VERIFY_AND_CHANGE_EMAIL = ''VERIFY_AND_CHANGE_EMAIL''"

definition GetOobCodeRequestType_of_string :: "string \<Rightarrow> GetOobCodeRequestType option" where
  "GetOobCodeRequestType_of_string s =
     (if s = ''PASSWORD_RESET'' then Some PASSWORD_RESET
      else if s = ''EMAIL_SIGNIN'' then Some EMAIL_SIGNIN
      else if s = ''VERIFY_EMAIL'' then Some VERIFY_EMAIL
      else if s = ''VERIFY_AND_CHANGE_EMAIL'' then Some VERIFY_AND_CHANGE_EMAIL
      else None)"

record GetOobCodeRequest =
  email :: "string option"
  continueUrl :: "string option"
  iosBundleId :: "string option"
  iosAppStoreId :: "string option"
  androidPackageName :: "string option"
  androidInstallApp :: "bool option"
  androidMinimumVersionCode :: "string option"
  canHandleCodeInApp :: "bool option"
  dynamicLinkDomain :: "string option"
  tenantId :: "string option"
  targetProjectid :: "string option"

definition GetOobCodeRequest_props :: "'a GetOobCodeRequest_scheme \<Rightarrow> props" where
  "GetOobCodeRequest_props r =
     opt_prop ''email'' JString (GetOobCodeRequest.email r)
   @ opt_prop ''continueUrl'' JString (continueUrl r)
   @ opt_prop ''iosBundleId'' JString (iosBundleId r)
   @ opt_prop ''iosAppStoreId'' JString (iosAppStoreId r)
   @ opt_prop ''androidPackageName'' JString (androidPackageName r)
   @ opt_prop ''androidInstallApp'' JBool (androidInstallApp r)
   @ opt_prop ''androidMinimumVersionCode'' JString (androidMinimumVersionCode r)
   @ opt_prop ''canHandleCodeInApp'' JBool (canHandleCodeInApp r)
   @ opt_prop ''dynamicLinkDomain'' JString (dynamicLinkDomain r)
   @ opt_prop ''tenantId'' JString (tenantId r)
   @ opt_prop ''targetProjectid'' JString (targetProjectid r)"

definition GetOobCodeRequest_keys :: "string set" where
  "GetOobCodeRequest_keys =
     {''email'', ''continueUrl'', ''iosBundleId'', ''iosAppStoreId'', ''androidPackageName'',
      ''androidInstallApp'', ''androidMinimumVersionCode'', ''canHandleCodeInApp'',
      ''dynamicLinkDomain'', ''tenantId'', ''targetProjectid''}"

definition GetOobCodeRequest_of_json :: "json \<Rightarrow> GetOobCodeRequest option" where
  "GetOobCodeRequest_of_json j =
     do {
       e \<leftarrow> opt_field json_string ''email'' j;
       cu \<leftarrow> opt_field json_string ''continueUrl'' j;
       ib \<leftarrow> opt_field json_string ''iosBundleId'' j;
       ia \<leftarrow> opt_field json_string ''iosAppStoreId'' j;
       ap \<leftarrow> opt_field json_string ''androidPackageName'' j;
       ai \<leftarrow> opt_field json_bool ''androidInstallApp'' j;
       am \<leftarrow> opt_field json_string ''androidMinimumVersionCode'' j;
       ch \<leftarrow> opt_field json_bool ''canHandleCodeInApp'' j;
       dl \<leftarrow> opt_field json_string ''dynamicLinkDomain'' j;
       ti \<leftarrow> opt_field json_string ''tenantId'' j;
       tp \<leftarrow> opt_field json_string ''targetProjectid'' j;
       Some \<lparr>email = e, continueUrl = cu, iosBundleId = ib, iosAppStoreId = ia,
             androidPackageName = ap, androidInstallApp = ai, androidMinimumVersionCode = am,
             canHandleCodeInApp = ch, dynamicLinkDomain = dl, tenantId = ti,
             targetProjectid = tp\<rparr>
     }"

record VerifyEmailRequest = GetOobCodeRequest +
  requestType :: GetOobCodeRequestType
  idToken :: IdToken

definition VerifyEmailRequest_wf :: "VerifyEmailRequest \<Rightarrow> bool" where
  "VerifyEmailRequest_wf r \<longleftrightarrow> VerifyEmailRequest.requestType r = VERIFY_EMAIL"

definition VerifyEmailRequest_own_props :: "VerifyEmailRequest \<Rightarrow> props" where
  "VerifyEmailRequest_own_props r =
     [(''requestType'', JString (GetOobCodeRequestType_to_string (VerifyEmailRequest.requestType r))),
      (''idToken'', JString (VerifyEmailRequest.idToken r))]"

record PasswordResetRequest = GetOobCodeRequest +
  requestType :: GetOobCodeRequestType
  captchaResp :: "string option"
  userIp :: "string option"

definition PasswordResetRequest_wf :: "PasswordResetRequest \<Rightarrow> bool" where
  "PasswordResetRequest_wf r \<longleftrightarrow>
     PasswordResetRequest.requestType r = PASSWORD_RESET \<and> GetOobCodeRequest.email r \<noteq> None"

definition PasswordResetRequest_own_props :: "PasswordResetRequest \<Rightarrow> props" where
  "PasswordResetRequest_own_props r =
     [(''requestType'', JString (GetOobCodeRequestType_to_string (PasswordResetRequest.requestType r)))]
     @ opt_prop ''captchaResp'' JString (captchaResp r)
     @ opt_prop ''userIp'' JString (userIp r)"

record EmailSignInRequest = GetOobCodeRequest +
  requestType :: GetOobCodeRequestType

definition EmailSignInRequest_wf :: "EmailSignInRequest \<Rightarrow> bool" where
  "EmailSignInRequest_wf r \<longleftrightarrow>
     EmailSignInRequest.requestType r = EMAIL_SIGNIN \<and> GetOobCodeRequest.email r \<noteq> None"

definition EmailSignInRequest_own_props :: "EmailSignInRequest \<Rightarrow> props" where
  "EmailSignInRequest_own_props r =
     [(''requestType'', JString (GetOobCodeRequestType_to_string (EmailSignInRequest.requestType r)))]"

record GetOobCodeResponse =
  email :: string

type_synonym VerifyEmailResponse = GetOobCodeResponse
type_synonym PasswordResetResponse = GetOobCodeResponse
type_synonym EmailSignInResponse = GetOobCodeResponse

definition sendOobCode ::
  "('auth, 's) fetch \<Rightarrow> 'auth \<Rightarrow> ('r GetOobCodeRequest_scheme \<Rightarrow> props)
   \<Rightarrow> 'r GetOobCodeRequest_scheme \<Rightarrow> (AuthError, 's, json) promise" where
  "sendOobCode fetch auth own request =
     performApiRequest fetch auth POST SEND_OOB_CODE
       (JObject (GetOobCodeRequest_props request @ own request))"

definition sendEmailVerification ::
  "('auth, 's) fetch \<Rightarrow> 'auth \<Rightarrow> VerifyEmailRequest \<Rightarrow> (AuthError, 's, json) promise" where
  "sendEmailVerification fetch auth request = sendOobCode fetch auth VerifyEmailRequest_own_props request"

definition sendPasswordResetEmail ::
  "('auth, 's) fetch \<Rightarrow> 'auth \<Rightarrow> PasswordResetRequest \<Rightarrow> (AuthError, 's, json) promise" where
  "sendPasswordResetEmail fetch auth request = sendOobCode fetch auth PasswordResetRequest_own_props request"

definition sendSignInLinkToEmail ::
  "('auth, 's) fetch \<Rightarrow> 'auth \<Rightarrow> EmailSignInRequest \<Rightarrow> (AuthError, 's, json) promise" where
  "sendSignInLinkToEmail fetch auth request = sendOobCode fetch auth EmailSignInRequest_own_props request"

section \<open>The abstract request\<close>

datatype OobCodeRequest =
    VerifyEmailCode IdToken GetOobCodeRequest
  | PasswordResetCode string "string option" "string option" GetOobCodeRequest
  | EmailSignInCode string GetOobCodeRequest

definition oob_request_of_json :: "json \<Rightarrow> OobCodeRequest option" where
  "oob_request_of_json j =
     do {
       base \<leftarrow> GetOobCodeRequest_of_json j;
       tag \<leftarrow> req_field json_string ''requestType'' j;
       t \<leftarrow> GetOobCodeRequestType_of_string tag;
       (case t of
          VERIFY_EMAIL \<Rightarrow> map_option (\<lambda>tok. VerifyEmailCode tok base) (req_field json_string ''idToken'' j)
        | PASSWORD_RESET \<Rightarrow>
            do {
              e \<leftarrow> GetOobCodeRequest.email base;
              c \<leftarrow> opt_field json_string ''captchaResp'' j;
              u \<leftarrow> opt_field json_string ''userIp'' j;
              Some (PasswordResetCode e c u base)
            }
        | EMAIL_SIGNIN \<Rightarrow> map_option (\<lambda>e. EmailSignInCode e base) (GetOobCodeRequest.email base)
        | VERIFY_AND_CHANGE_EMAIL \<Rightarrow> None)
     }"

section \<open>Serialization\<close>

lemma GetOobCodeRequestType_of_to_string [simp]:
  "GetOobCodeRequestType_of_string (GetOobCodeRequestType_to_string t) = Some t"
  by (cases t) (simp_all add: GetOobCodeRequestType_of_string_def)

text \<open>
  C7. The enum's wire strings identify its members: a string reads as a request type
  exactly when it is that type's string value, so no two members share a string and
  every value the client sends reads back as itself.
\<close>

lemma GetOobCodeRequestType_of_string_Some:
  "GetOobCodeRequestType_of_string s = Some t \<longleftrightarrow> s = GetOobCodeRequestType_to_string t"
  by (cases t) (auto simp: GetOobCodeRequestType_of_string_def split: if_splits)

lemma keys_GetOobCodeRequest_props: "keys (GetOobCodeRequest_props r) \<subseteq> GetOobCodeRequest_keys"
  by (simp add: GetOobCodeRequest_props_def GetOobCodeRequest_keys_def)

lemma GetOobCodeRequest_props_get_other [wire_simps]:
  "k \<notin> GetOobCodeRequest_keys \<Longrightarrow> props_get (GetOobCodeRequest_props r @ ys) k = props_get ys k"
  using keys_GetOobCodeRequest_props by (blast intro: props_get_append_disjoint2)

lemma GetOobCodeRequest_props_get_None [wire_simps]:
  "k \<notin> GetOobCodeRequest_keys \<Longrightarrow> props_get (GetOobCodeRequest_props r) k = None"
  using keys_GetOobCodeRequest_props by (auto simp: props_get_None_iff)

lemma GetOobCodeRequest_of_json_cong:
  assumes "\<forall>k \<in> GetOobCodeRequest_keys. props_get kvs k = props_get kvs' k"
  shows "GetOobCodeRequest_of_json (JObject kvs) = GetOobCodeRequest_of_json (JObject kvs')"
  using assms by (simp add: GetOobCodeRequest_of_json_def GetOobCodeRequest_keys_def)

lemma GetOobCodeRequest_roundtrip_base:
  "GetOobCodeRequest_of_json (JObject (GetOobCodeRequest_props r)) = Some (GetOobCodeRequest.truncate r)"
  by (simp add: GetOobCodeRequest_of_json_def GetOobCodeRequest_props_def wire_simps GetOobCodeRequest.defs)

lemma GetOobCodeRequest_of_json_props_append:
  assumes "keys extra \<inter> GetOobCodeRequest_keys = {}"
  shows "GetOobCodeRequest_of_json (JObject (GetOobCodeRequest_props r @ extra)) =
           Some (GetOobCodeRequest.truncate r)"
proof -
  have "\<forall>k \<in> GetOobCodeRequest_keys.
          props_get (GetOobCodeRequest_props r @ extra) k = props_get (GetOobCodeRequest_props r) k"
    using assms by (blast intro: props_get_append_disjoint)
  then show ?thesis
    by (simp add: GetOobCodeRequest_of_json_cong [of _ "GetOobCodeRequest_props r"]
          GetOobCodeRequest_roundtrip_base)
qed

lemma own_keys_disjoint:
  "keys (VerifyEmailRequest_own_props r) \<inter> GetOobCodeRequest_keys = {}"
  "keys (PasswordResetRequest_own_props p) \<inter> GetOobCodeRequest_keys = {}"
  "keys (EmailSignInRequest_own_props q) \<inter> GetOobCodeRequest_keys = {}"
  by (simp_all add: VerifyEmailRequest_own_props_def PasswordResetRequest_own_props_def
        EmailSignInRequest_own_props_def GetOobCodeRequest_keys_def Int_Un_distrib2)

lemma sendOobCode_logging:
  "sendOobCode (logging f) auth own r (log, s) =
     (response_result (fst (f auth POST SEND_OOB_CODE (JObject (GetOobCodeRequest_props r @ own r)) s)),
      (log @ [\<lparr>req_method = POST, req_endpoint = SEND_OOB_CODE,
               req_body = JObject (GetOobCodeRequest_props r @ own r)\<rparr>],
       snd (f auth POST SEND_OOB_CODE (JObject (GetOobCodeRequest_props r @ own r)) s)))"
  by (simp add: sendOobCode_def performApiRequest_apply logging_apply)

section \<open>What the entry points' bodies read as\<close>

text \<open>
  Reading a body built from the base properties and a variant's own properties: the base
  part reads back through \<open>GetOobCodeRequest_of_json_props_append\<close>, the variant's
  properties through the conditional lookups of \<open>wire_simps\<close>.
\<close>

lemmas oob_body_read_simps = oob_request_of_json_def GetOobCodeRequest_of_json_props_append
  GetOobCodeRequest_props_get_other GetOobCodeRequest_keys_def wire_simps
  GetOobCodeRequestType_of_string_def GetOobCodeRequest.defs

lemma VerifyEmailRequest_body_reads:
  assumes "VerifyEmailRequest_wf r"
  shows "oob_request_of_json (JObject (GetOobCodeRequest_props r @ VerifyEmailRequest_own_props r)) =
           Some (VerifyEmailCode (VerifyEmailRequest.idToken r) (GetOobCodeRequest.truncate r))"
  using assms own_keys_disjoint(1) [of r]
  by (simp add: oob_body_read_simps VerifyEmailRequest_wf_def VerifyEmailRequest_own_props_def)

lemma PasswordResetRequest_body_reads:
  assumes "PasswordResetRequest.requestType r = PASSWORD_RESET" and "GetOobCodeRequest.email r = Some e"
  shows "oob_request_of_json (JObject (GetOobCodeRequest_props r @ PasswordResetRequest_own_props r)) =
           Some (PasswordResetCode e (captchaResp r) (userIp r) (GetOobCodeRequest.truncate r))"
  using assms own_keys_disjoint(2) [of r]
  by (simp add: oob_body_read_simps PasswordResetRequest_own_props_def)

lemma PasswordResetRequest_body_without_email:
  assumes "GetOobCodeRequest.email r = None"
  shows "oob_request_of_json (JObject (GetOobCodeRequest_props r @ PasswordResetRequest_own_props r)) = None"
  using assms own_keys_disjoint(2) [of r]
  by (cases "PasswordResetRequest.requestType r")
     (simp_all add: oob_body_read_simps PasswordResetRequest_own_props_def)

lemma EmailSignInRequest_body_reads:
  assumes "EmailSignInRequest.requestType r = EMAIL_SIGNIN" and "GetOobCodeRequest.email r = Some e"
  shows "oob_request_of_json (JObject (GetOobCodeRequest_props r @ EmailSignInRequest_own_props r)) =
           Some (EmailSignInCode e (GetOobCodeRequest.truncate r))"
  using assms own_keys_disjoint(3) [of r]
  by (simp add: oob_body_read_simps EmailSignInRequest_own_props_def)

section \<open>The entry points refine the abstract request\<close>

text \<open>
  C2. For a well-typed \<open>VerifyEmailRequest\<close>, \<open>sendEmailVerification\<close> issues exactly
  one POST to \<open>SEND_OOB_CODE\<close>, and its body reads as the abstract verify-email request
  carrying the caller's identity token and base parameters; the world and the result
  are those of that one exchange.
\<close>

lemma sendEmailVerification_refines:
  assumes "VerifyEmailRequest_wf request"
  shows "\<exists>b. oob_request_of_json b =
              Some (VerifyEmailCode (VerifyEmailRequest.idToken request) (GetOobCodeRequest.truncate request)) \<and>
           sendEmailVerification (logging f) auth request (log, s) =
             (response_result (fst (f auth POST SEND_OOB_CODE b s)),
              (log @ [\<lparr>req_method = POST, req_endpoint = SEND_OOB_CODE, req_body = b\<rparr>],
               snd (f auth POST SEND_OOB_CODE b s)))"
proof (intro exI conjI)
  let ?b = "JObject (GetOobCodeRequest_props request @ VerifyEmailRequest_own_props request)"
  show "oob_request_of_json ?b =
          Some (VerifyEmailCode (VerifyEmailRequest.idToken request) (GetOobCodeRequest.truncate request))"
    using assms by (rule VerifyEmailRequest_body_reads)
  show "sendEmailVerification (logging f) auth request (log, s) =
          (response_result (fst (f auth POST SEND_OOB_CODE ?b s)),
           (log @ [\<lparr>req_method = POST, req_endpoint = SEND_OOB_CODE, req_body = ?b\<rparr>],
            snd (f auth POST SEND_OOB_CODE ?b s)))"
    by (simp add: sendEmailVerification_def sendOobCode_logging)
qed

text \<open>
  C3. For a well-typed \<open>PasswordResetRequest\<close> (tag \<open>PASSWORD_RESET\<close>, email
  present), \<open>sendPasswordResetEmail\<close> issues exactly one POST to \<open>SEND_OOB_CODE\<close>
  whose body reads as the abstract password-reset request for that email, with the
  caller's anti-abuse fields and base parameters.
\<close>

lemma sendPasswordResetEmail_refines:
  assumes "PasswordResetRequest_wf request"
  shows "\<exists>b e. GetOobCodeRequest.email request = Some e \<and>
           oob_request_of_json b =
             Some (PasswordResetCode e (captchaResp request) (userIp request)
                     (GetOobCodeRequest.truncate request)) \<and>
           sendPasswordResetEmail (logging f) auth request (log, s) =
             (response_result (fst (f auth POST SEND_OOB_CODE b s)),
              (log @ [\<lparr>req_method = POST, req_endpoint = SEND_OOB_CODE, req_body = b\<rparr>],
               snd (f auth POST SEND_OOB_CODE b s)))"
proof -
  let ?b = "JObject (GetOobCodeRequest_props request @ PasswordResetRequest_own_props request)"
  from assms obtain e where e: "GetOobCodeRequest.email request = Some e"
    by (auto simp: PasswordResetRequest_wf_def)
  have "oob_request_of_json ?b =
          Some (PasswordResetCode e (captchaResp request) (userIp request)
                  (GetOobCodeRequest.truncate request))"
    using assms e by (simp add: PasswordResetRequest_wf_def PasswordResetRequest_body_reads)
  moreover have "sendPasswordResetEmail (logging f) auth request (log, s) =
          (response_result (fst (f auth POST SEND_OOB_CODE ?b s)),
           (log @ [\<lparr>req_method = POST, req_endpoint = SEND_OOB_CODE, req_body = ?b\<rparr>],
            snd (f auth POST SEND_OOB_CODE ?b s)))"
    by (simp add: sendPasswordResetEmail_def sendOobCode_logging)
  ultimately show ?thesis using e by blast
qed

text \<open>
  C4. For a well-typed \<open>EmailSignInRequest\<close> (tag \<open>EMAIL_SIGNIN\<close>, email present),
  \<open>sendSignInLinkToEmail\<close> issues exactly one POST to \<open>SEND_OOB_CODE\<close> whose body
  reads as the abstract sign-in-link request for that email and base parameters.
\<close>

lemma sendSignInLinkToEmail_refines:
  assumes "EmailSignInRequest_wf request"
  shows "\<exists>b e. GetOobCodeRequest.email request = Some e \<and>
           oob_request_of_json b = Some (EmailSignInCode e (GetOobCodeRequest.truncate request)) \<and>
           sendSignInLinkToEmail (logging f) auth request (log, s) =
             (response_result (fst (f auth POST SEND_OOB_CODE b s)),
              (log @ [\<lparr>req_method = POST, req_endpoint = SEND_OOB_CODE, req_body = b\<rparr>],
               snd (f auth POST SEND_OOB_CODE b s)))"
proof -
  let ?b = "JObject (GetOobCodeRequest_props request @ EmailSignInRequest_own_props request)"
  from assms obtain e where e: "GetOobCodeRequest.email request = Some e"
    by (auto simp: EmailSignInRequest_wf_def)
  have "oob_request_of_json ?b = Some (EmailSignInCode e (GetOobCodeRequest.truncate request))"
    using assms e by (simp add: EmailSignInRequest_wf_def EmailSignInRequest_body_reads)
  moreover have "sendSignInLinkToEmail (logging f) auth request (log, s) =
          (response_result (fst (f auth POST SEND_OOB_CODE ?b s)),
           (log @ [\<lparr>req_method = POST, req_endpoint = SEND_OOB_CODE, req_body = ?b\<rparr>],
            snd (f auth POST SEND_OOB_CODE ?b s)))"
    by (simp add: sendSignInLinkToEmail_def sendOobCode_logging)
  ultimately show ?thesis using e by blast
qed

text \<open>
  C9. The dispatcher validates nothing locally: a password-reset request that lacks
  its email, which the TypeScript types forbid but nothing checks at run time, is still
  sent as exactly one POST to \<open>SEND_OOB_CODE\<close>, and its body reads as no abstract
  request at all, whatever its tag; rejecting it is left to the service.
\<close>

lemma sendPasswordResetEmail_no_local_validation:
  assumes "GetOobCodeRequest.email request = None"
  shows "\<exists>b. oob_request_of_json b = None \<and>
           sendPasswordResetEmail (logging f) auth request (log, s) =
             (response_result (fst (f auth POST SEND_OOB_CODE b s)),
              (log @ [\<lparr>req_method = POST, req_endpoint = SEND_OOB_CODE, req_body = b\<rparr>],
               snd (f auth POST SEND_OOB_CODE b s)))"
proof (intro exI conjI)
  let ?b = "JObject (GetOobCodeRequest_props request @ PasswordResetRequest_own_props request)"
  show "oob_request_of_json ?b = None"
    using assms by (rule PasswordResetRequest_body_without_email)
  show "sendPasswordResetEmail (logging f) auth request (log, s) =
          (response_result (fst (f auth POST SEND_OOB_CODE ?b s)),
           (log @ [\<lparr>req_method = POST, req_endpoint = SEND_OOB_CODE, req_body = ?b\<rparr>],
            snd (f auth POST SEND_OOB_CODE ?b s)))"
    by (simp add: sendPasswordResetEmail_def sendOobCode_logging)
qed

text \<open>
  C8. The target-project parameter is serialized under the property name the
  interface declares, \<open>targetProjectid\<close> (lower-case \<open>id\<close>); a body built from a
  \<open>GetOobCodeRequest\<close> never carries the \<open>targetProjectId\<close> property the spec names.
\<close>

lemma GetOobCodeRequest_targetProjectid_key:
  "props_get (GetOobCodeRequest_props r) ''targetProjectId'' = None \<and>
   props_get (GetOobCodeRequest_props r) ''targetProjectid'' = map_option JString (targetProjectid r)"
  by (simp add: GetOobCodeRequest_props_def wire_simps)

section \<open>Witnesses\<close>

lemma sendEmailVerification_refines_witness:
  "VerifyEmailRequest_wf (VerifyEmailRequest.make None (Some ''https://example.com/done'')
      None None None None None None None None None VERIFY_EMAIL ''id-token'') \<and>
   (\<exists>b. oob_request_of_json b =
          Some (VerifyEmailCode ''id-token''
                  (GetOobCodeRequest.truncate (VerifyEmailRequest.make None (Some ''https://example.com/done'')
                     None None None None None None None None None VERIFY_EMAIL ''id-token''))) \<and>
        snd (sendEmailVerification (logging (\<lambda>_ _ _ b s. (HttpResponse 200 (Some b), s))) ()
               (VerifyEmailRequest.make None (Some ''https://example.com/done'')
                  None None None None None None None None None VERIFY_EMAIL ''id-token'') ([], ()))
          = ([\<lparr>req_method = POST, req_endpoint = SEND_OOB_CODE, req_body = b\<rparr>], ()))"
proof -
  have wf: "VerifyEmailRequest_wf (VerifyEmailRequest.make None (Some ''https://example.com/done'')
      None None None None None None None None None VERIFY_EMAIL ''id-token'')"
    by (simp add: VerifyEmailRequest_wf_def VerifyEmailRequest.defs)
  show ?thesis
    using sendEmailVerification_refines [OF wf, of "\<lambda>_ _ _ b s. (HttpResponse 200 (Some b), s)" "()" "[]" "()"] wf
    by (auto simp: VerifyEmailRequest.defs)
qed

lemma sendPasswordResetEmail_refines_witness:
  "PasswordResetRequest_wf (PasswordResetRequest.make (Some ''a@b.com'') None
      None None None None None None None None None PASSWORD_RESET (Some ''captcha'') None) \<and>
   (\<exists>b. oob_request_of_json b =
          Some (PasswordResetCode ''a@b.com'' (Some ''captcha'') None
                  (GetOobCodeRequest.truncate (PasswordResetRequest.make (Some ''a@b.com'') None
                     None None None None None None None None None PASSWORD_RESET (Some ''captcha'') None))) \<and>
        snd (sendPasswordResetEmail (logging (\<lambda>_ _ _ b s. (HttpResponse 200 (Some b), s))) ()
               (PasswordResetRequest.make (Some ''a@b.com'') None
                  None None None None None None None None None PASSWORD_RESET (Some ''captcha'') None) ([], ()))
          = ([\<lparr>req_method = POST, req_endpoint = SEND_OOB_CODE, req_body = b\<rparr>], ()))"
proof -
  have wf: "PasswordResetRequest_wf (PasswordResetRequest.make (Some ''a@b.com'') None
      None None None None None None None None None PASSWORD_RESET (Some ''captcha'') None)"
    by (simp add: PasswordResetRequest_wf_def PasswordResetRequest.defs)
  show ?thesis
    using sendPasswordResetEmail_refines [OF wf, of "\<lambda>_ _ _ b s. (HttpResponse 200 (Some b), s)" "()" "[]" "()"] wf
    by (auto simp: PasswordResetRequest.defs)
qed

lemma sendSignInLinkToEmail_refines_witness:
  "EmailSignInRequest_wf (EmailSignInRequest.make (Some ''a@b.com'') (Some ''https://example.com/finish'')
      None None None None None (Some True) None None None EMAIL_SIGNIN) \<and>
   (\<exists>b. oob_request_of_json b =
          Some (EmailSignInCode ''a@b.com''
                  (GetOobCodeRequest.truncate (EmailSignInRequest.make (Some ''a@b.com'')
                     (Some ''https://example.com/finish'') None None None None None (Some True) None None None
                     EMAIL_SIGNIN))) \<and>
        snd (sendSignInLinkToEmail (logging (\<lambda>_ _ _ b s. (HttpResponse 200 (Some b), s))) ()
               (EmailSignInRequest.make (Some ''a@b.com'') (Some ''https://example.com/finish'')
                  None None None None None (Some True) None None None EMAIL_SIGNIN) ([], ()))
          = ([\<lparr>req_method = POST, req_endpoint = SEND_OOB_CODE, req_body = b\<rparr>], ()))"
proof -
  have wf: "EmailSignInRequest_wf (EmailSignInRequest.make (Some ''a@b.com'') (Some ''https://example.com/finish'')
      None None None None None (Some True) None None None EMAIL_SIGNIN)"
    by (simp add: EmailSignInRequest_wf_def EmailSignInRequest.defs)
  show ?thesis
    using sendSignInLinkToEmail_refines [OF wf, of "\<lambda>_ _ _ b s. (HttpResponse 200 (Some b), s)" "()" "[]" "()"] wf
    by (auto simp: EmailSignInRequest.defs)
qed

lemma sendPasswordResetEmail_no_local_validation_witness:
  "GetOobCodeRequest.email (PasswordResetRequest.make None None
      None None None None None None None None None PASSWORD_RESET None None) = None \<and>
   (\<exists>b. oob_request_of_json b = None \<and>
        snd (sendPasswordResetEmail (logging (\<lambda>_ _ _ b s. (HttpResponse 400 (Some b), s))) ()
               (PasswordResetRequest.make None None
                  None None None None None None None None None PASSWORD_RESET None None) ([], ()))
          = ([\<lparr>req_method = POST, req_endpoint = SEND_OOB_CODE, req_body = b\<rparr>], ()))"
proof -
  have h: "GetOobCodeRequest.email (PasswordResetRequest.make None None
      None None None None None None None None None PASSWORD_RESET None None) = None"
    by (simp add: PasswordResetRequest.defs)
  show ?thesis
    using sendPasswordResetEmail_no_local_validation
      [OF h, of "\<lambda>_ _ _ b s. (HttpResponse 400 (Some b), s)" "()" "[]" "()"] h
    by auto
qed

end
