(* ===== verification/TestData.thy ===== *)
theory TestData
  imports Prelude
begin

text \<open>
  The data of the integration test, lines 41--42 of
  \<open>packages/auth-ts/test/integration/email_and_password.test.ts\<close>.
  \<^item> The email is the template \<open>test-user-${Date.now()}@example.com\<close>. The clock
    reading is a natural number, printed in decimal without leading zeros, as JavaScript
    prints a non-negative integer (\<open>string_of_nat\<close>).
  \<^item> The password is \<open>Math.random().toString(36).substring(2,15)\<close>. \<open>Math.random()\<close>
    returns a number in \<open>[0, 1)\<close>. \<open>toString(36)\<close> prints \<open>0\<close> for zero and
    otherwise \<open>0.\<close> followed by base-36 fraction digits. How many digits the engine
    prints is implementation-defined, so the model takes the printed digit list as its
    parameter; the empty list stands for zero. \<open>js_substring\<close> is
    \<open>String.prototype.substring\<close>: both bounds are clamped to the string and
    swapped if reversed.
  \<open>nat_of_digits\<close> is a decimal reader used to prove that the printing loses
  nothing; it is no code of the test.
\<close>

fun string_of_nat :: "nat \<Rightarrow> string" where
  "string_of_nat n =
     (if n < 10 then [char_of (48 + n)] else string_of_nat (n div 10) @ [char_of (48 + n mod 10)])"

declare string_of_nat.simps [simp del]

definition test_email :: "nat \<Rightarrow> string" where
  "test_email now = ''test-user-'' @ string_of_nat now @ ''@example.com''"

definition radix36_digit :: "nat \<Rightarrow> char" where
  "radix36_digit d = (if d < 10 then char_of (48 + d) else char_of (87 + d))"

definition random_toString36 :: "nat list \<Rightarrow> string" where
  "random_toString36 ds = (if ds = [] then ''0'' else ''0.'' @ map radix36_digit ds)"

definition js_substring :: "string \<Rightarrow> nat \<Rightarrow> nat \<Rightarrow> string" where
  "js_substring s a b =
     (let i = min a (length s); j = min b (length s) in take (max i j - min i j) (drop (min i j) s))"

definition test_password :: "nat list \<Rightarrow> string" where
  "test_password ds = js_substring (random_toString36 ds) 2 15"

definition digit_value :: "char \<Rightarrow> nat option" where
  "digit_value c = (let n = (of_char c :: nat) in if 48 \<le> n \<and> n < 58 then Some (n - 48) else None)"

fun nat_of_digits :: "nat \<Rightarrow> string \<Rightarrow> nat option" where
  "nat_of_digits acc [] = Some acc"
| "nat_of_digits acc (c # cs) = Option.bind (digit_value c) (\<lambda>d. nat_of_digits (10 * acc + d) cs)"

section \<open>Lemmas\<close>

lemma nat_of_digits_append:
  "nat_of_digits acc (xs @ ys) = Option.bind (nat_of_digits acc xs) (\<lambda>a. nat_of_digits a ys)"
  by (induction acc xs rule: nat_of_digits.induct) (simp_all split: Option.bind_splits)

lemma digit_value_char_of [simp]: "d < 10 \<Longrightarrow> digit_value (char_of (48 + d)) = Some d"
  by (simp add: digit_value_def)

lemma string_of_nat_not_Nil [simp]: "string_of_nat n \<noteq> []"
  by (subst string_of_nat.simps) simp

lemma nat_of_digits_string_of_nat:
  "nat_of_digits acc (string_of_nat n) = Some (acc * 10 ^ length (string_of_nat n) + n)"
proof (induction n arbitrary: acc rule: string_of_nat.induct)
  case (1 n)
  show ?case
  proof (cases "n < 10")
    case True
    then show ?thesis by (subst (1 2) string_of_nat.simps) simp
  next
    case False
    then have "string_of_nat n = string_of_nat (n div 10) @ [char_of (48 + n mod 10)]"
      by (subst string_of_nat.simps) simp
    with False 1 show ?thesis
      by (simp add: nat_of_digits_append algebra_simps)
  qed
qed

lemma test_password_eq: "test_password ds = take 13 (map radix36_digit ds)"
  by (simp add: test_password_def js_substring_def random_toString36_def min_def)

text \<open>
  C10. The test's password has at most 13 characters. It has at least the six that the
  service requires exactly when \<open>toString(36)\<close> printed at least six fraction digits.
\<close>

lemma test_password_length:
  "length (test_password ds) \<le> 13 \<and> (6 \<le> length (test_password ds) \<longleftrightarrow> 6 \<le> length ds)"
  by (simp add: test_password_eq)

lemma string_of_nat_inj: "string_of_nat a = string_of_nat b \<longleftrightarrow> a = b"
proof
  assume "string_of_nat a = string_of_nat b"
  then have "nat_of_digits 0 (string_of_nat a) = nat_of_digits 0 (string_of_nat b)" by simp
  then show "a = b" by (simp add: nat_of_digits_string_of_nat)
qed simp

text \<open>
  C11. Two runs of the test get the same email exactly when they read the same clock
  value: the template of line 41 embeds the whole millisecond reading, printed without
  loss. Runs in different milliseconds never collide on the email; runs in the same
  millisecond always do.
\<close>

theorem test_email_eq_iff: "test_email a = test_email b \<longleftrightarrow> a = b"
  by (simp add: test_email_def string_of_nat_inj)

end
