(* ===== verification/Spec2Isabelle.thy ===== *)
theory Spec2Isabelle
  imports Prelude Api SignIn OobCode TestData
begin

text \<open>
  \<^bold>\<open>A verified model of the email-and-password REST bindings of the auth client.\<close>

  \<^bold>\<open>The program.\<close> \<open>packages-exp/auth-exp/src/api/authentication/email_and_password.ts\<close>
  binds four operations of the remote authentication service:
  \<^item> \<open>signInWithPassword\<close> (lines 38--46);
  \<^item> the three out-of-band code requests \<open>sendEmailVerification\<close>,
    \<open>sendPasswordResetEmail\<close> and \<open>sendSignInLinkToEmail\<close> (lines 106--125), which all
    delegate to the private \<open>sendOobCode\<close> (lines 94--104).
  Each is one POST through the request-performing collaborator of \<open>api/index.ts\<close>, with a
  fixed endpoint identifier and the caller's request object as the body. Sign-in goes
  through \<open>performSignInRequest\<close>, the others through \<open>performApiRequest\<close>. The request
  and response shapes are TypeScript interfaces (lines 27--36 and 48--92).
  \<open>packages/auth-ts/test/integration/email_and_password.test.ts\<close> is an integration test
  of sign-up and sign-in against the live service. It imports the strategies of
  \<open>packages/auth-ts\<close>, not the wrapper above.

  \<^bold>\<open>The theories.\<close>
  \<^item> \<open>Prelude\<close>: JSON values as the wire sees them (\<open>json\<close>). A property of an object
    is read with the last binding winning (\<open>props_get\<close>/\<open>jfield\<close>), and an \<open>undefined\<close>
    optional property is not serialized (\<open>opt_prop\<close>). It also holds the typed reads
    that a TypeScript interface promises (\<open>req_field\<close>, \<open>opt_field\<close>), and promises as
    state transformers of a world that reject (\<open>Inl\<close>) or resolve (\<open>Inr\<close>). The collection \<open>wire_simps\<close> evaluates property reads of
    serialized objects; the component proofs are built on it.
  \<^item> \<open>Api\<close>: the collaborator of \<open>api/index.ts\<close>. It is not among the sources and is
    modelled from the spec's contract. \<open>performApiRequest\<close> performs one exchange
    through an abstract \<open>fetch\<close> on an opaque world \<open>'s\<close> with an opaque context
    \<open>'auth\<close>. It resolves with the body of a 2xx response, and rejects with
    \<open>NETWORK_REQUEST_FAILED\<close> on a transport failure and with the service's
    \<open>error.message\<close> otherwise. \<open>performSignInRequest\<close> delegates to it. \<open>logging\<close>
    instruments a fetch with the list of requests it carried (\<open>ApiRequest\<close>); the
    wrappers' `exactly one request' theorems are stated against it.
  \<^item> \<open>SignIn\<close>: \<open>SignInWithPasswordRequest\<close> and \<open>SignInWithPasswordResponse\<close> (an
    extension of \<open>IdTokenResponse\<close>) as records, the request's JSON form, and
    \<open>signInWithPassword\<close>. \<open>SignInWithPasswordRequest_of_json\<close> is not code: it is how
    a receiver reads a body under the request interface, and it is used to state that
    the body carries exactly the caller's request. Lemma: the wrapper issues exactly one
    POST to \<open>SIGN_IN_WITH_PASSWORD\<close> whose body reads back as the request, and settles
    as that exchange is classified. The response type is a cast: the body resolves
    unchecked.
  \<^item> \<open>OobCode\<close>: the enum \<open>GetOobCodeRequestType\<close> with its string values, the base
    record \<open>GetOobCodeRequest\<close> and its three extensions. Their literal tag and
    required email are the typing predicates \<open>*_wf\<close>. \<open>sendOobCode\<close> works over any
    extension of the base record, and the three entry points call it. The spec's tagged
    union is the datatype \<open>OobCodeRequest\<close>, and \<open>oob_request_of_json\<close> reads a body as
    one (a reader, not code). Lemmas:
    \<^item> each entry point, on a well-typed request, issues exactly one POST to
      \<open>SEND_OOB_CODE\<close> whose body reads as the abstract request it stands for
      (refinement);
    \<^item> the tag strings are distinct;
    \<^item> the dispatcher validates nothing locally;
    \<^item> the target project is sent under the key \<open>targetProjectid\<close>.
  \<^item> \<open>TestData\<close>: lines 41--42 of the integration test, the generated email
    \<open>test-user-${Date.now()}@example.com\<close> and password
    \<open>Math.random().toString(36).substring(2,15)\<close>. Lemmas: the password has at most
    13 characters, and at least six exactly when six digits were printed; two runs get
    the same email exactly when they read the same clock value.
  \<^item> This theory: the four operations as one datatype of calls (\<open>ClientCall\<close>,
    \<open>client_call\<close>), with the request each puts on the wire (\<open>call_request\<close>).
    Lemmas: across the module, transport failures and service errors are surfaced
    unchanged, with no retry.

  \<^bold>\<open>What is not modelled.\<close>
  \<^item> The HTTP transport itself (URLs, headers, the API key) and the application
    bootstrap are outside the sources. The wrappers are proved against every \<open>fetch\<close>
    function instead; the context object is an opaque type parameter.
  \<^item> The remote service is not part of the repository, so no outcome decided by the
    service (which emails exist, which passwords it accepts) is modelled.
  \<^item> The body of the integration test (lines 44--64) calls
    \<open>createUserWithEmailAndPassword\<close>, \<open>signInWithEmailAndPassword\<close>, \<open>getIdToken\<close>,
    \<open>getIdTokenResult\<close> and \<open>signOut\<close> of \<open>packages/auth-ts\<close>, with their own REST layer.
    None of that code is among the sources, so only the test's data (lines 41--42) is
    modelled. How many digits \<open>toString(36)\<close> prints is implementation-defined, so the
    printed digit list is a parameter of the password model.
  \<^item> \<open>model/id_token.ts\<close> is absent; \<open>IdTokenResponse\<close> holds the standard token fields
    the spec names.
  \<^item> The body order of \<open>JSON.stringify\<close> follows property creation order in
    JavaScript. The model serializes in declaration order, which no theorem depends on:
    every read is by key.
  \<^item> No loop occurs in the code, so no fuel or termination argument is needed. The
    decimal printing of the clock in the test's data recurses on \<open>n div 10\<close>, and
    \<open>fun\<close> proves that it terminates.
\<close>

section \<open>The operations as one interface\<close>

datatype ClientCall =
    SignInWithPassword SignInWithPasswordRequest
  | SendEmailVerification VerifyEmailRequest
  | SendPasswordResetEmail PasswordResetRequest
  | SendSignInLinkToEmail EmailSignInRequest

fun client_call :: "('auth, 's) fetch \<Rightarrow> 'auth \<Rightarrow> ClientCall \<Rightarrow> (AuthError, 's, json) promise" where
  "client_call f auth (SignInWithPassword r) = signInWithPassword f auth r"
| "client_call f auth (SendEmailVerification r) = sendEmailVerification f auth r"
| "client_call f auth (SendPasswordResetEmail r) = sendPasswordResetEmail f auth r"
| "client_call f auth (SendSignInLinkToEmail r) = sendSignInLinkToEmail f auth r"

fun call_request :: "ClientCall \<Rightarrow> ApiRequest" where
  "call_request (SignInWithPassword r) =
     \<lparr>req_method = POST, req_endpoint = SIGN_IN_WITH_PASSWORD, req_body = SignInWithPasswordRequest_to_json r\<rparr>"
| "call_request (SendEmailVerification r) =
     \<lparr>req_method = POST, req_endpoint = SEND_OOB_CODE,
      req_body = JObject (GetOobCodeRequest_props r @ VerifyEmailRequest_own_props r)\<rparr>"
| "call_request (SendPasswordResetEmail r) =
     \<lparr>req_method = POST, req_endpoint = SEND_OOB_CODE,
      req_body = JObject (GetOobCodeRequest_props r @ PasswordResetRequest_own_props r)\<rparr>"
| "call_request (SendSignInLinkToEmail r) =
     \<lparr>req_method = POST, req_endpoint = SEND_OOB_CODE,
      req_body = JObject (GetOobCodeRequest_props r @ EmailSignInRequest_own_props r)\<rparr>"

definition exchange :: "('auth, 's) fetch \<Rightarrow> 'auth \<Rightarrow> ApiRequest \<Rightarrow> 's \<Rightarrow> FetchResult \<times> 's" where
  "exchange f auth q s = f auth (req_method q) (req_endpoint q) (req_body q) s"

section \<open>Lemmas\<close>

lemma client_call_apply:
  "client_call f auth c s =
     (response_result (fst (exchange f auth (call_request c) s)), snd (exchange f auth (call_request c) s))"
  by (cases c)
     (simp_all add: exchange_def signInWithPassword_def sendEmailVerification_def sendPasswordResetEmail_def
        sendSignInLinkToEmail_def sendOobCode_def api_apply)

text \<open>
  C5. Every operation of the module, when its one exchange fails at the transport
  level, rejects with \<open>NETWORK_REQUEST_FAILED\<close>; there is no retry and no recovery,
  and the world is left as the failed exchange left it.
\<close>

theorem wrappers_reject_on_network_failure:
  assumes "exchange f auth (call_request c) s = (NetworkFailure, s')"
  shows "client_call f auth c s = (Inl NETWORK_REQUEST_FAILED, s')"
  using assms by (simp add: client_call_apply)

text \<open>
  C6. Every operation of the module, when the service answers its one request with a
  non-2xx status and the error body \<open>{"error": {"message": m}}\<close>, rejects with that
  message, unchanged.
\<close>

theorem wrappers_surface_server_error:
  assumes "exchange f auth (call_request c) s =
             (HttpResponse status (Some (JObject [(''error'', JObject [(''message'', JString m)])])), s')"
    and "\<not> http_ok status"
  shows "client_call f auth c s = (Inl (ServerError m), s')"
  using assms by (simp add: client_call_apply)

section \<open>Witnesses\<close>

theorem wrappers_reject_on_network_failure_witness:
  "client_call (\<lambda>_ _ _ _ s. (NetworkFailure, s)) ()
      (SignInWithPassword \<lparr>SignInWithPasswordRequest.returnSecureToken = Some True, SignInWithPasswordRequest.email = ''a@b.com'', SignInWithPasswordRequest.password = ''x''\<rparr>) ()
   = (Inl NETWORK_REQUEST_FAILED, ())"
  by (rule wrappers_reject_on_network_failure) (simp add: exchange_def)

theorem wrappers_surface_server_error_witness:
  "client_call
      (\<lambda>_ _ _ _ s. (HttpResponse 400
                      (Some (JObject [(''error'', JObject [(''message'', JString ''EMAIL_NOT_FOUND'')])])), s)) ()
      (SendPasswordResetEmail (PasswordResetRequest.make (Some ''nobody@example.com'') None
          None None None None None None None None None PASSWORD_RESET None None)) ()
   = (Inl (ServerError ''EMAIL_NOT_FOUND''), ())"
proof -
  have "\<not> http_ok (400::nat)" by (simp add: http_ok_def)
  then show ?thesis
    by (rule wrappers_surface_server_error [rotated]) (simp add: exchange_def)
qed

end
